theory Spec2Isabelle
  imports Complex_Main "HOL-Library.Word"
begin

section \<open>The FunctionsConsumer contract\<close>

text \<open>
  The contract of \<^verbatim>\<open>src/contracts/FunctionsConsumer.sol\<close>. Solidity value types are
  words of their width; \<^verbatim>\<open>bytes\<close> and \<^verbatim>\<open>string\<close> are lists. A \<^verbatim>\<open>bytes32\<close> is the
  256-bit word that \<^verbatim>\<open>mload\<close> reads, most significant byte first.
\<close>

type_synonym address = "160 word"
type_synonym uint256 = "256 word"
type_synonym uint8 = "8 word"
type_synonym bytes32 = "256 word"
type_synonym bytes = "8 word list"

datatype Operation = CALL | DELEGATECALL

text \<open>
  A failed transaction: \<^verbatim>\<open>require(c, msg)\<close> and \<^verbatim>\<open>revert(msg)\<close> give \<open>Error msg\<close>, a
  failed array bounds check gives \<open>Panic 0x32\<close>, and the assembly \<^verbatim>\<open>revert(p, n)\<close>
  gives the raw bytes.
\<close>

datatype error = Error string | Panic nat | RevertData bytes

text \<open>
  Storage. A Solidity mapping is total: an absent key reads the zero value of the
  value type (the empty string, the empty array, \<open>False\<close>).
\<close>

record FunctionsConsumer =
  functionRequestsForProposals :: "bytes32 \<Rightarrow> string"
  proposals :: "string \<Rightarrow> bytes32 list"
  executed :: "string \<Rightarrow> bool"

definition constructor :: FunctionsConsumer where
  "constructor =
     \<lparr>functionRequestsForProposals = (\<lambda>_. []), proposals = (\<lambda>_. []), executed = (\<lambda>_. False)\<rparr>"

text \<open>
  What a call does besides changing storage: the event it emits, and the low-level
  call it makes. A low-level call is recorded with the storage the target finds and
  with the pair \<^verbatim>\<open>(success, returnData)\<close> it returned.
\<close>

datatype low_level_call = Call address uint256 bytes | Delegatecall address bytes

datatype effect =
    OCRResponse bytes32 bytes bytes
  | External low_level_call FunctionsConsumer bool bytes

text \<open>
  A call returns the effects in the order they happened, and either the error it
  reverted with or its result. A reverted call leaves storage as it was.
\<close>

type_synonym 'a outcome = "effect list \<times> (error + 'a)"

definition storage_after :: "FunctionsConsumer \<Rightarrow> effect list \<times> (error + FunctionsConsumer) \<Rightarrow> FunctionsConsumer" where
  "storage_after s r = (case snd r of Inl e \<Rightarrow> s | Inr s' \<Rightarrow> s')"

subsection \<open>bytesToBytes32Array\<close>

text \<open>
  \<^verbatim>\<open>mload(add(data, i))\<close>: \<^verbatim>\<open>data\<close> points at the length word of the byte array, so
  the 32 bytes read at offset \<open>i\<close> are the bytes \<open>i - 32\<close> to \<open>i - 1\<close> of its content.
  The loop only reads with \<open>32 \<le> i \<le> length data\<close>, inside the array.
\<close>

definition mload :: "bytes \<Rightarrow> nat \<Rightarrow> bytes32" where
  "mload data i = word_rcat (take 32 (drop (i - 32) data))"

text \<open>
  The \<^verbatim>\<open>for\<close> loop of \<^verbatim>\<open>bytesToBytes32Array\<close>, with the bounds check of the store
  \<^verbatim>\<open>dataList[index] = temp\<close>. The counters are natural numbers: they stay below
  \<open>length data + 32\<close>, and the length of a byte array in memory is far below \<open>2 ^ 256\<close>,
  so the checked additions never overflow.
\<close>

function bytesToBytes32Array_loop :: "bytes \<Rightarrow> nat \<Rightarrow> nat \<Rightarrow> bytes32 list \<Rightarrow> error + bytes32 list" where
  "bytesToBytes32Array_loop data i index dataList =
     (if i \<le> length data then
        (let temp = mload data i in
         if index < length dataList
         then bytesToBytes32Array_loop data (i + 32) (index + 1) (dataList[index := temp])
         else Inl (Panic 0x32))
      else Inr dataList)"
  by pat_completeness auto
termination
  by (relation "measure (\<lambda>(data, i, index, dataList). length data + 1 - i)") auto

definition bytesToBytes32Array :: "bytes \<Rightarrow> error + bytes32 list" where
  "bytesToBytes32Array data =
     (let dataNb = length data div 32;
          dataList = replicate dataNb (0 :: bytes32);
          index = 0
      in bytesToBytes32Array_loop data 32 index dataList)"

text \<open>
  The decoding as the specification words it: the input cut into consecutive 32-byte
  chunks, in order, a trailing partial chunk dropped.
\<close>

definition chunks32 :: "bytes \<Rightarrow> bytes32 list" where
  "chunks32 data = map (\<lambda>k. word_rcat (take 32 (drop (32 * k) data))) [0..<length data div 32]"

subsection \<open>fulfillRequest\<close>

text \<open>
  The callback ignores \<^verbatim>\<open>err\<close> but for the event: it stores the decoded response
  whenever the proposal of the request id is not executed. It is internal; the inherited
  \<^verbatim>\<open>handleOracleFulfillment\<close>, which calls it, is not part of the source here.
\<close>

definition fulfillRequest :: "FunctionsConsumer \<Rightarrow> bytes32 \<Rightarrow> bytes \<Rightarrow> bytes \<Rightarrow> FunctionsConsumer outcome" where
  "fulfillRequest s requestId response err =
     (if executed s (functionRequestsForProposals s requestId)
      then ([], Inl (Error ''Proposal already executed''))
      else case bytesToBytes32Array response of
             Inl e \<Rightarrow> ([], Inl e)
           | Inr dataList \<Rightarrow>
               ([OCRResponse requestId response err],
                Inr (s\<lparr>proposals :=
                       (proposals s)(functionRequestsForProposals s requestId := dataList)\<rparr>)))"

subsection \<open>executeRequest\<close>

text \<open>
  \<open>isOwner\<close> is the outcome of the inherited \<^verbatim>\<open>onlyOwner\<close> check on the sender, and
  \<open>sent\<close> is what building the request and the inherited \<^verbatim>\<open>sendRequest\<close> give (an
  error, or the request id the oracle assigned): both are library code, taken as given.
\<close>

datatype Location = Inline | Remote

definition executeRequest ::
  "bool \<Rightarrow> error + bytes32 \<Rightarrow> FunctionsConsumer \<Rightarrow> string \<Rightarrow> bytes \<Rightarrow> Location \<Rightarrow> string list \<Rightarrow>
   64 word \<Rightarrow> 32 word \<Rightarrow> (FunctionsConsumer \<times> bytes32) outcome" where
  "executeRequest isOwner sent s source secrets secretsLocation args subscriptionId gasLimit =
     (if \<not> isOwner then ([], Inl (Error ''Only callable by owner''))
      else if length args = 0 then ([], Inl (Panic 0x32))
      else if executed s (args ! 0) then ([], Inl (Error ''Proposal already executed''))
      else case sent of
             Inl e \<Rightarrow> ([], Inl e)
           | Inr requestId \<Rightarrow>
               ([], Inr (s\<lparr>functionRequestsForProposals :=
                            (functionRequestsForProposals s)(requestId := args ! 0)\<rparr>,
                         requestId)))"

subsection \<open>exec and executeProposalWithIndex\<close>

text \<open>
  The target of a low-level call is outside the contract: \<open>callee\<close> gives, for the
  storage it finds and the call made, \<^verbatim>\<open>success\<close>, \<^verbatim>\<open>returnData\<close> and the storage of
  the contract as the target leaves it. A target reached by \<^verbatim>\<open>delegatecall\<close> runs on the
  storage of the contract and can write any of it; a target reached by \<^verbatim>\<open>call\<close> can
  write it by calling back into the contract. A \<open>callee\<close> may leave any storage, which
  covers both. When the low-level call fails, what the target wrote is rolled back with
  its frame: the storage is the one the call found. So \<open>exec\<close> returns, with the boolean
  of the source, the storage after the call.
\<close>

type_synonym callee = "FunctionsConsumer \<Rightarrow> low_level_call \<Rightarrow> bool \<times> bytes \<times> FunctionsConsumer"

definition exec ::
  "callee \<Rightarrow> FunctionsConsumer \<Rightarrow> address \<Rightarrow> uint256 \<Rightarrow> bytes \<Rightarrow> Operation \<Rightarrow> (bool \<times> FunctionsConsumer) outcome" where
  "exec ext s to value data operation =
     (if operation = CALL then
        (let (success, returnData, written) = ext s (Call to value data)
         in ([External (Call to value data) s success returnData],
             Inr (success, if success then written else s)))
      else if operation = DELEGATECALL then
        (let (success, returnData, written) = ext s (Delegatecall to data)
         in ([External (Delegatecall to data) s success returnData],
             Inr (success, if success then written else s)))
      else
        (let success = False; returnData = ([] :: bytes) in
         if \<not> success then
           (if length returnData = 0
            then ([], Inl (Error ''Transaction reverted silently''))
            else ([], Inl (RevertData returnData)))
         else ([], Inr (True, s))))"

text \<open>
  \<open>keccak_encode to value data operation\<close> stands for
  \<^verbatim>\<open>keccak256(abi.encode(to, value, data, operation))\<close>. The left side of the comparison
  is evaluated first and cannot fail; the array read on the right side is bounds-checked.
\<close>

type_synonym hasher = "address \<Rightarrow> uint256 \<Rightarrow> bytes \<Rightarrow> uint8 \<Rightarrow> bytes32"

definition executeProposalWithIndex ::
  "hasher \<Rightarrow> callee \<Rightarrow> FunctionsConsumer \<Rightarrow> string \<Rightarrow> address \<Rightarrow> uint256 \<Rightarrow> bytes \<Rightarrow> uint8 \<Rightarrow> uint256 \<Rightarrow>
   FunctionsConsumer outcome" where
  "executeProposalWithIndex keccak_encode ext s proposalId to value data operation txIndex =
     (if executed s proposalId then ([], Inl (Error ''Proposal already executed''))
      else
        (let s1 = s\<lparr>executed := (executed s)(proposalId := True)\<rparr> in
         if length (proposals s1 proposalId) \<le> unat txIndex then ([], Inl (Panic 0x32))
         else if keccak_encode to value data operation \<noteq> proposals s1 proposalId ! unat txIndex
         then ([], Inl (Error ''Tx hash mismatch''))
         else
           (case exec ext s1 to value data (if operation = 0 then CALL else DELEGATECALL) of
              (effects, Inl e) \<Rightarrow> (effects, Inl e)
            | (effects, Inr (ok, s2)) \<Rightarrow>
                if ok then (effects, Inr s2)
                else (effects, Inl (Error ''Module transaction failed'')))))"

definition executeProposal ::
  "hasher \<Rightarrow> callee \<Rightarrow> FunctionsConsumer \<Rightarrow> string \<Rightarrow> address \<Rightarrow> uint256 \<Rightarrow> bytes \<Rightarrow> uint8 \<Rightarrow>
   FunctionsConsumer outcome" where
  "executeProposal keccak_encode ext s proposalId to value data operation =
     executeProposalWithIndex keccak_encode ext s proposalId to value data operation 0"

definition hasCompletelyExecuted :: "FunctionsConsumer \<Rightarrow> string \<Rightarrow> bool" where
  "hasCompletelyExecuted s proposalId = executed s proposalId"

subsection \<open>Runs of the contract\<close>

text \<open>
  The calls that can change the three mappings, each with what the world outside
  answers to it: the owner check and the request id for \<^verbatim>\<open>executeRequest\<close>, the callee
  for an execution. \<open>FulfillRequest\<close> is a delivery that reaches the callback. The
  remaining entry points (\<^verbatim>\<open>updateOracleAddress\<close>, \<^verbatim>\<open>addSimulatedRequestId\<close>,
  \<^verbatim>\<open>receive\<close>) only reach inherited storage and the balance: \<open>Other\<close>.
\<close>

datatype transaction =
    ExecuteRequest bool "error + bytes32" string bytes Location "string list" "64 word" "32 word"
  | FulfillRequest bytes32 bytes bytes
  | ExecuteProposal callee string address uint256 bytes uint8
  | ExecuteProposalWithIndex callee string address uint256 bytes uint8 uint256
  | Other

fun call_contract :: "hasher \<Rightarrow> FunctionsConsumer \<Rightarrow> transaction \<Rightarrow> FunctionsConsumer outcome" where
  "call_contract h s (ExecuteRequest isOwner sent source secrets secretsLocation args subscriptionId gasLimit) =
     (case executeRequest isOwner sent s source secrets secretsLocation args subscriptionId gasLimit of
        (effects, Inl e) \<Rightarrow> (effects, Inl e)
      | (effects, Inr (s', requestId)) \<Rightarrow> (effects, Inr s'))"
| "call_contract h s (FulfillRequest requestId response err) = fulfillRequest s requestId response err"
| "call_contract h s (ExecuteProposal ext proposalId to value data operation) =
     executeProposal h ext s proposalId to value data operation"
| "call_contract h s (ExecuteProposalWithIndex ext proposalId to value data operation txIndex) =
     executeProposalWithIndex h ext s proposalId to value data operation txIndex"
| "call_contract h s Other = ([], Inr s)"

text \<open>
  A run keeps, next to the storage, the history of the calls that did not revert, each
  with its effects, latest first.
\<close>

type_synonym history = "(transaction \<times> effect list) list"

definition step :: "hasher \<Rightarrow> FunctionsConsumer \<times> history \<Rightarrow> transaction \<Rightarrow> FunctionsConsumer \<times> history" where
  "step h st t =
     (case call_contract h (fst st) t of
        (effects, Inl e) \<Rightarrow> st
      | (effects, Inr s') \<Rightarrow> (s', (t, effects) # snd st))"

definition run :: "hasher \<Rightarrow> transaction list \<Rightarrow> FunctionsConsumer \<times> history" where
  "run h ts = foldl (step h) (constructor, []) ts"


definition low_level_of :: "address \<Rightarrow> uint256 \<Rightarrow> bytes \<Rightarrow> uint8 \<Rightarrow> low_level_call" where
  "low_level_of to value data operation = (if operation = 0 then Call to value data else Delegatecall to data)"







subsection \<open>The request correlation\<close>

text \<open>
  Modelled from the spec: the request correlation kept by the inherited
  \<^verbatim>\<open>FunctionsClient\<close> and its entry point \<^verbatim>\<open>handleOracleFulfillment\<close>, which calls
  \<^verbatim>\<open>fulfillRequest\<close>; neither is part of the source here. The specification has a request
  id consumed exactly once, by the first oracle result delivered for it, and has a
  redelivery under the same request id ignored, an idempotent no-op.
\<close>

record correlated =
  consumer :: FunctionsConsumer
  consumed :: "bytes32 set"

definition handleOracleFulfillment :: "correlated \<Rightarrow> bytes32 \<Rightarrow> bytes \<Rightarrow> bytes \<Rightarrow> correlated outcome" where
  "handleOracleFulfillment c requestId response err =
     (if requestId \<in> consumed c then ([], Inr c)
      else case fulfillRequest (consumer c) requestId response err of
             (effects, Inl e) \<Rightarrow> (effects, Inl e)
           | (effects, Inr s') \<Rightarrow>
               (effects, Inr \<lparr>consumer = s', consumed = insert requestId (consumed c)\<rparr>))"

section \<open>The resolver script\<close>

text \<open>
  The script of \<^verbatim>\<open>src/snapshot.js\<close>. The answer of the vote service is JSON: a number
  is a real (every JSON number the script compares is a finite double, and the order of
  finite doubles is the order of the reals), a field that may be absent is an option,
  \<open>None\<close> being \<^verbatim>\<open>undefined\<close>.
\<close>

record safe_transaction =
  tx_to :: string
  tx_value :: string
  tx_data :: string
  tx_operation :: string

record batch =
  batch_hash :: "string option"
  transactions :: "safe_transaction list option"

record safe =
  txs :: "batch list option"

record safeSnap_plugin =
  executableIf :: "string option"
  safes :: "safe list option"
  txString :: "string option"

record plugins_object =
  safeSnap :: "safeSnap_plugin option"

record proposal =
  choices :: "string list"
  plugins :: "plugins_object option"
  quorum :: real
  scores :: "real list"
  scores_state :: string
  scores_total :: real

text \<open>
  What \<^verbatim>\<open>Functions.makeHttpRequest\<close> resolves to: the \<^verbatim>\<open>error\<close> flag, and the
  \<^verbatim>\<open>proposal\<close> of \<^verbatim>\<open>data.data\<close>, \<open>None\<close> when the service answers \<^verbatim>\<open>null\<close>.
\<close>

record http_response =
  response_error :: bool
  response_proposal :: "proposal option"

datatype js_exception = JsError string | TypeError

text \<open>
  How the script ends: it throws, it returns an \<^verbatim>\<open>Error\<close> object (the statement is
  \<^verbatim>\<open>return Error(...)\<close>, not \<^verbatim>\<open>throw\<close>), or it returns a buffer.
\<close>

datatype script_result = Throws js_exception | ReturnsError string | ReturnsBuffer bytes

text \<open>\<^verbatim>\<open>Math.max(...xs)\<close>; \<open>None\<close> is \<^verbatim>\<open>-Infinity\<close>, the value on no argument.\<close>

fun Math_max :: "real list \<Rightarrow> real option" where
  "Math_max [] = None"
| "Math_max (x # xs) = (case Math_max xs of None \<Rightarrow> Some x | Some m \<Rightarrow> Some (max x m))"

text \<open>\<^verbatim>\<open>xs.indexOf(v)\<close> searching from position \<open>k\<close>: the first index of \<open>v\<close>, or -1.\<close>

fun indexOf_from :: "real list \<Rightarrow> real \<Rightarrow> nat \<Rightarrow> int" where
  "indexOf_from [] v k = - 1"
| "indexOf_from (x # xs) v k = (if x = v then int k else indexOf_from xs v (k + 1))"

definition indexOf :: "real list \<Rightarrow> real option \<Rightarrow> int" where
  "indexOf xs v = (case v of None \<Rightarrow> - 1 | Some m \<Rightarrow> indexOf_from xs m 0)"

text \<open>\<^verbatim>\<open>xs[i]\<close>: \<^verbatim>\<open>undefined\<close> outside the array.\<close>

definition element :: "'a list \<Rightarrow> int \<Rightarrow> 'a option" where
  "element xs i = (if 0 \<le> i \<and> nat i < length xs then Some (xs ! nat i) else None)"

definition winningChoice :: "proposal \<Rightarrow> string option" where
  "winningChoice p = element (choices p) (indexOf (scores p) (Math_max (scores p)))"

text \<open>\<^verbatim>\<open>plugins?.safeSnap\<close>\<close>

definition safeSnap_of :: "proposal \<Rightarrow> safeSnap_plugin option" where
  "safeSnap_of p = (case plugins p of None \<Rightarrow> None | Some pl \<Rightarrow> safeSnap pl)"

definition executableIf_of :: "proposal \<Rightarrow> string option" where
  "executableIf_of p = (case safeSnap_of p of None \<Rightarrow> None | Some ss \<Rightarrow> executableIf ss)"

definition txString_of :: "proposal \<Rightarrow> string option" where
  "txString_of p = (case safeSnap_of p of None \<Rightarrow> None | Some ss \<Rightarrow> txString ss)"

text \<open>
  \<^verbatim>\<open>plugins?.safeSnap?.safes[0]?.txs[0]\<close>: \<^verbatim>\<open>undefined\<close> (and the rest of the chain is
  skipped) where a \<^verbatim>\<open>?.\<close> meets \<^verbatim>\<open>undefined\<close>, a \<^verbatim>\<open>TypeError\<close> where a plain access
  does.
\<close>

definition first_batch :: "proposal \<Rightarrow> js_exception + batch option" where
  "first_batch p =
     (case safeSnap_of p of
        None \<Rightarrow> Inr None
      | Some ss \<Rightarrow>
          (case safes ss of
             None \<Rightarrow> Inl TypeError
           | Some [] \<Rightarrow> Inr None
           | Some (sf # _) \<Rightarrow>
               (case txs sf of
                  None \<Rightarrow> Inl TypeError
                | Some [] \<Rightarrow> Inl TypeError
                | Some (b # _) \<Rightarrow> Inr (Some b))))"

text \<open>\<^verbatim>\<open>plugins?.safeSnap?.safes[0]?.txs[0].transactions[0]\<close>, followed by a field access.\<close>

definition first_transaction :: "proposal \<Rightarrow> js_exception + safe_transaction option" where
  "first_transaction p =
     (case first_batch p of
        Inl e \<Rightarrow> Inl e
      | Inr None \<Rightarrow> Inr None
      | Inr (Some b) \<Rightarrow>
          (case transactions b of
             None \<Rightarrow> Inl TypeError
           | Some [] \<Rightarrow> Inl TypeError
           | Some (t # _) \<Rightarrow> Inr (Some t)))"

text \<open>
  \<^verbatim>\<open>Buffer.from(s, 'hex')\<close>: two hexadecimal digits make a byte; decoding stops at the
  first pair that is not hexadecimal, and a last single character is dropped.
\<close>

definition hex_digit :: "char \<Rightarrow> nat option" where
  "hex_digit c =
     (if c \<in> set ''0123456789'' then Some (of_char c - 48)
      else if c \<in> set ''abcdef'' then Some (of_char c - 87)
      else if c \<in> set ''ABCDEF'' then Some (of_char c - 55)
      else None)"

fun Buffer_from_hex :: "string \<Rightarrow> bytes" where
  "Buffer_from_hex (a # b # rest) =
     (case (hex_digit a, hex_digit b) of
        (Some x, Some y) \<Rightarrow> of_nat (16 * x + y) # Buffer_from_hex rest
      | _ \<Rightarrow> [])"
| "Buffer_from_hex _ = []"

text \<open>
  The script from the answer of the request on. The transaction fields of lines 68 to
  71 are read (a read can throw) and not used: the buffer returned is made from
  \<^verbatim>\<open>txString\<close> alone.
\<close>

definition snapshot :: "http_response \<Rightarrow> script_result" where
  "snapshot response =
     (if response_error response then Throws (JsError ''Snapshot request failed'')
      else case response_proposal response of
        None \<Rightarrow> Throws TypeError
      | Some proposal \<Rightarrow>
          if scores_state proposal \<noteq> ''final'' then Throws (JsError ''Snapshot vote is not final'')
          else if scores_total proposal < quorum proposal
          then Throws (JsError ''Snapshot vote quorum not reached'')
          else
            (let shouldExecute = (executableIf_of proposal = winningChoice proposal) in
             if \<not> shouldExecute then ReturnsError ''Snpashot vote outcome should not execute''
             else
               (case first_batch proposal of
                  Inl e \<Rightarrow> Throws e
                | Inr b \<Rightarrow>
                    (let hash = (case b of None \<Rightarrow> None | Some b' \<Rightarrow> batch_hash b');
                         txString = txString_of proposal
                     in case first_transaction proposal of
                          Inl e \<Rightarrow> Throws e
                        | Inr t \<Rightarrow>
                            (let to = map_option tx_to t;
                                 value = map_option tx_value t;
                                 txData = map_option tx_data t;
                                 operation = map_option tx_operation t
                             in case txString of
                                  None \<Rightarrow> Throws TypeError
                                | Some str \<Rightarrow>
                                    (let hexStringWithoutPrefix = drop 2 str;
                                         convertedHexStringToBytesBuffer = Buffer_from_hex hexStringWithoutPrefix
                                     in ReturnsBuffer convertedHexStringToBytesBuffer))))))"

definition payload_of :: "script_result \<Rightarrow> bytes option" where
  "payload_of r = (case r of ReturnsBuffer b \<Rightarrow> Some b | _ \<Rightarrow> None)"

text \<open>
  The index the specification names: the lowest index that achieves the maximum score.
\<close>

definition lowest_max_index :: "real list \<Rightarrow> nat \<Rightarrow> bool" where
  "lowest_max_index xs i \<longleftrightarrow>
     i < length xs \<and> (\<forall>j < length xs. xs ! j \<le> xs ! i) \<and> (\<forall>j < i. xs ! j \<noteq> xs ! i)"

text \<open>A vote result, as the answer of a request that did not fail.\<close>

definition vote_response :: "proposal \<Rightarrow> http_response" where
  "vote_response v = \<lparr>response_error = False, response_proposal = Some v\<rparr>"

section \<open>Examples\<close>

text \<open>
  The values of the simulation script: its proposal id, and the transaction it executes.
  \<open>example_hash\<close> stands in for the hash where a value has to be computed.
\<close>

definition example_hash :: hasher where
  "example_hash to value data operation = ucast to + value + of_nat (length data) + ucast operation"

definition failing_callee :: "bytes \<Rightarrow> callee" where
  "failing_callee returnData s c = (False, returnData, s)"

definition succeeding_callee :: callee where
  "succeeding_callee s c = (True, [], s)"

definition example_proposalId :: string where
  "example_proposalId = ''0x6ebe48a886db66b86756a72b4acd6451fb85e5fc00c212309ae32713b8bbb0f6''"

definition example_to :: address where
  "example_to = 0x9036464e4ecD2d40d21EE38a0398AEdD6805a09B"

definition example_value :: uint256 where
  "example_value = 10000000000000"

definition example_commitment :: bytes32 where
  "example_commitment = example_hash example_to example_value [] 0"

definition example_storage :: "bytes32 list \<Rightarrow> FunctionsConsumer" where
  "example_storage cs = constructor\<lparr>proposals := (proposals constructor)(example_proposalId := cs)\<rparr>"

definition example_payload :: bytes where
  "example_payload = [0, 0, 0, 0, 0, 0, 0, 0, 0, 0, 0, 0, 144, 54, 70, 78, 78, 205, 45, 64, 210, 30,
     227, 138, 3, 152, 183, 245, 182, 120, 64, 155]"

definition example_run :: "transaction list" where
  "example_run =
     [ExecuteRequest True (Inr 1) ''return Buffer.from([])'' [] Inline [example_proposalId] 0 300000,
      FulfillRequest 1 example_payload [],
      ExecuteProposal succeeding_callee example_proposalId example_to example_value [] 0]"

definition clobbering_run :: "transaction list" where
  "clobbering_run =
     [ExecuteRequest True (Inr 1) ''return Buffer.from([])'' [] Inline [example_proposalId] 0 300000,
      ExecuteRequest True (Inr 2) ''return Buffer.from([])'' [] Inline [example_proposalId] 0 300000,
      FulfillRequest 1 example_payload [],
      FulfillRequest 2 [] [69, 114, 114, 111, 114]]"






text \<open>
  The correlation after the request of the example run, and after the delivery of its
  commitment under request id 1.
\<close>

definition requested :: correlated where
  "requested = \<lparr>consumer = fst (run example_hash (take 1 example_run)), consumed = {}\<rparr>"

definition committed :: correlated where
  "committed = \<lparr>consumer = fst (run example_hash (take 2 example_run)), consumed = {1}\<rparr>"

definition example_transaction :: safe_transaction where
  "example_transaction =
     \<lparr>tx_to = ''0x9036464e4ecD2d40d21EE38a0398AEdD6805a09B'', tx_value = ''10000000000000'',
      tx_data = ''0x'', tx_operation = ''0''\<rparr>"

definition other_transaction :: safe_transaction where
  "other_transaction =
     \<lparr>tx_to = ''0xAAaAaAaaAaAaAaaAaAAAAAAAAaaaAaAaAaaAaaAa'', tx_value = ''0'',
      tx_data = ''0x'', tx_operation = ''0''\<rparr>"

definition example_vote :: "string \<Rightarrow> real list \<Rightarrow> safe_transaction \<Rightarrow> string option \<Rightarrow> proposal" where
  "example_vote state votes t str =
     \<lparr>choices = [''A'', ''B'', ''C''],
      plugins = Some \<lparr>safeSnap = Some
        \<lparr>executableIf = Some ''B'',
         safes = Some [\<lparr>txs = Some [\<lparr>batch_hash = None, transactions = Some [t]\<rparr>]\<rparr>],
         txString = str\<rparr>\<rparr>,
      quorum = 10, scores = votes, scores_state = state, scores_total = sum_list votes\<rparr>"

definition example_txString :: string where
  "example_txString = ''0x0000000000000000000000009036464e4ecd2d40d21ee38a0398b7f5b678409b''"

section \<open>Lemmas\<close>

subsection \<open>Lemmas on bytesToBytes32Array\<close>

lemma bytesToBytes32Array_loop_inv:
  "i = 32 * (index + 1) \<Longrightarrow> length dataList = length data div 32 \<Longrightarrow>
   bytesToBytes32Array_loop data i index dataList =
     Inr (take index dataList @ map (\<lambda>k. mload data (32 * (k + 1))) [index..<length data div 32])"
proof (induction data i index dataList rule: bytesToBytes32Array_loop.induct)
  case (1 data i index dataList)
  show ?case
  proof (cases "i \<le> length data")
    case True
    with "1.prems" have lt: "index < length data div 32"
      by auto
    then have lt': "index < length dataList"
      using "1.prems" by simp
    let ?dl = "dataList[index := mload data i]"
    have IH: "bytesToBytes32Array_loop data (i + 32) (index + 1) ?dl =
        Inr (take (index + 1) ?dl @ map (\<lambda>k. mload data (32 * (k + 1))) [index + 1..<length data div 32])"
      using "1.IH" [OF True refl lt'] "1.prems" by simp
    have tk: "take (index + 1) ?dl = take index dataList @ [mload data i]"
      using lt' by (simp add: take_Suc_conv_app_nth)
    have up: "[index..<length data div 32] = index # [index + 1..<length data div 32]"
      using lt by (simp add: upt_conv_Cons)
    have "bytesToBytes32Array_loop data i index dataList =
        bytesToBytes32Array_loop data (i + 32) (index + 1) ?dl"
      using True lt' by (subst bytesToBytes32Array_loop.simps) (simp add: Let_def)
    then show ?thesis
      using IH tk up "1.prems" by simp
  next
    case False
    with "1.prems" have ge: "length data div 32 \<le> index"
      by auto
    have "bytesToBytes32Array_loop data i index dataList = Inr dataList"
      using False by (subst bytesToBytes32Array_loop.simps) simp
    then show ?thesis
      using ge "1.prems" by simp
  qed
qed

lemma bytesToBytes32Array_eq: "bytesToBytes32Array data = Inr (chunks32 data)"
proof -
  have "bytesToBytes32Array data =
      Inr (map (\<lambda>k. mload data (32 * (k + 1))) [0..<length data div 32])"
    unfolding bytesToBytes32Array_def Let_def
    by (subst bytesToBytes32Array_loop_inv) simp_all
  then show ?thesis
    by (simp add: chunks32_def mload_def)
qed

lemma length_chunks32: "length (chunks32 data) = length data div 32"
  by (simp add: chunks32_def)

lemma bytesToBytes32Array_Nil: "bytesToBytes32Array [] = Inr []"
  by (simp add: bytesToBytes32Array_eq chunks32_def)

subsection \<open>Lemmas on the execution\<close>

lemma exec_eq:
  "exec ext s to val dat operation =
     ([External (case operation of CALL \<Rightarrow> Call to val dat | DELEGATECALL \<Rightarrow> Delegatecall to dat) s
         (fst (ext s (case operation of CALL \<Rightarrow> Call to val dat | DELEGATECALL \<Rightarrow> Delegatecall to dat)))
         (fst (snd (ext s (case operation of CALL \<Rightarrow> Call to val dat | DELEGATECALL \<Rightarrow> Delegatecall to dat))))],
      Inr (fst (ext s (case operation of CALL \<Rightarrow> Call to val dat | DELEGATECALL \<Rightarrow> Delegatecall to dat)),
           if fst (ext s (case operation of CALL \<Rightarrow> Call to val dat | DELEGATECALL \<Rightarrow> Delegatecall to dat))
           then snd (snd (ext s (case operation of CALL \<Rightarrow> Call to val dat | DELEGATECALL \<Rightarrow> Delegatecall to dat)))
           else s))"
  by (cases operation) (simp_all add: exec_def split: prod.split)

lemma exec_uint8:
  "exec ext s to val dat (if operation = 0 then CALL else DELEGATECALL) =
     ([External (low_level_of to val dat operation) s
         (fst (ext s (low_level_of to val dat operation)))
         (fst (snd (ext s (low_level_of to val dat operation))))],
      Inr (fst (ext s (low_level_of to val dat operation)),
           if fst (ext s (low_level_of to val dat operation))
           then snd (snd (ext s (low_level_of to val dat operation)))
           else s))"
  by (simp add: exec_eq low_level_of_def)

lemma executeProposalWithIndex_cases:
  "executeProposalWithIndex h ext s p to val dat operation i =
     (if executed s p then ([], Inl (Error ''Proposal already executed''))
      else if length (proposals s p) \<le> unat i then ([], Inl (Panic 0x32))
      else if h to val dat operation \<noteq> proposals s p ! unat i then ([], Inl (Error ''Tx hash mismatch''))
      else
        ([External (low_level_of to val dat operation) (s\<lparr>executed := (executed s)(p := True)\<rparr>)
            (fst (ext (s\<lparr>executed := (executed s)(p := True)\<rparr>) (low_level_of to val dat operation)))
            (fst (snd (ext (s\<lparr>executed := (executed s)(p := True)\<rparr>) (low_level_of to val dat operation))))],
         if fst (ext (s\<lparr>executed := (executed s)(p := True)\<rparr>) (low_level_of to val dat operation))
         then Inr (snd (snd (ext (s\<lparr>executed := (executed s)(p := True)\<rparr>) (low_level_of to val dat operation))))
         else Inl (Error ''Module transaction failed'')))"
  unfolding executeProposalWithIndex_def Let_def exec_uint8
  by simp

lemma example_storage_simps:
  "executed (example_storage cs) q = False"
  "proposals (example_storage cs) example_proposalId = cs"
  by (simp_all add: example_storage_def constructor_def)

lemma example_commitment_value: "example_commitment = 823305035746138510560967898354421509237889319067"
  by (simp add: example_commitment_def example_hash_def example_to_def example_value_def)

lemma example_payload_decodes: "bytesToBytes32Array example_payload = Inr [example_commitment]"
  by (simp add: bytesToBytes32Array_eq chunks32_def example_payload_def example_commitment_value
      word_rcat_def)

subsection \<open>The invariant is kept by every call\<close>












subsection \<open>A proposal stays executed\<close>






lemma example_run_requested:
  "fst (run example_hash (take 1 example_run)) =
     constructor\<lparr>functionRequestsForProposals := (functionRequestsForProposals constructor)(1 := example_proposalId)\<rparr>"
  by (simp add: example_run_def run_def step_def executeRequest_def constructor_def)

lemma example_run_committed:
  "fst (run example_hash (take 2 example_run)) =
     constructor\<lparr>functionRequestsForProposals := (functionRequestsForProposals constructor)(1 := example_proposalId),
                 proposals := (proposals constructor)(example_proposalId := [example_commitment])\<rparr>"
  by (simp add: example_run_def run_def step_def executeRequest_def fulfillRequest_def
      example_payload_decodes constructor_def)


subsection \<open>Lemmas on the script\<close>

lemma Math_max_Max: "xs \<noteq> [] \<Longrightarrow> Math_max xs = Some (Max (set xs))"
proof (induction xs)
  case Nil
  then show ?case by simp
next
  case (Cons x xs)
  show ?case
  proof (cases "xs = []")
    case True
    then show ?thesis by simp
  next
    case False
    with Cons.IH show ?thesis by simp
  qed
qed

lemma indexOf_from_first:
  "i < length xs \<Longrightarrow> xs ! i = v \<Longrightarrow> \<forall>j < i. xs ! j \<noteq> v \<Longrightarrow> indexOf_from xs v k = int (k + i)"
proof (induction xs arbitrary: i k)
  case Nil
  then show ?case by simp
next
  case (Cons x xs)
  show ?case
  proof (cases i)
    case 0
    with Cons.prems show ?thesis by simp
  next
    case (Suc i')
    with Cons.prems have "x \<noteq> v"
      by auto
    moreover have "indexOf_from xs v (k + 1) = int (k + 1 + i')"
      using Cons.prems Suc by (intro Cons.IH) auto
    ultimately show ?thesis
      using Suc by simp
  qed
qed

lemma lowest_max_index_Max:
  assumes "lowest_max_index xs i"
  shows "xs ! i = Max (set xs)"
proof -
  from assms have i: "i < length xs" and le: "\<forall>j < length xs. xs ! j \<le> xs ! i"
    by (simp_all add: lowest_max_index_def)
  have "Max (set xs) = xs ! i"
  proof (rule Max_eqI)
    show "finite (set xs)" by simp
    show "xs ! i \<in> set xs" using i by simp
    fix y assume "y \<in> set xs"
    then obtain j where "j < length xs" "xs ! j = y"
      by (auto simp add: in_set_conv_nth)
    with le show "y \<le> xs ! i" by auto
  qed
  then show ?thesis by simp
qed

lemma winningChoice_lowest_max_index:
  assumes "lowest_max_index (scores p) i" and "i < length (choices p)"
  shows "winningChoice p = Some (choices p ! i)"
proof -
  from assms(1) have i: "i < length (scores p)" and first: "\<forall>j < i. scores p ! j \<noteq> scores p ! i"
    by (simp_all add: lowest_max_index_def)
  then have ne: "scores p \<noteq> []"
    by auto
  have "indexOf (scores p) (Math_max (scores p)) = indexOf_from (scores p) (scores p ! i) 0"
    by (simp add: indexOf_def Math_max_Max [OF ne] lowest_max_index_Max [OF assms(1)])
  also have "\<dots> = int (0 + i)"
    using i first by (intro indexOf_from_first) auto
  finally show ?thesis
    using assms(2) by (simp add: winningChoice_def element_def)
qed

lemma example_vote_simps:
  "scores_state (example_vote state votes t str) = state"
  "scores_total (example_vote state votes t str) = sum_list votes"
  "quorum (example_vote state votes t str) = 10"
  "scores (example_vote state votes t str) = votes"
  "choices (example_vote state votes t str) = [''A'', ''B'', ''C'']"
  "executableIf_of (example_vote state votes t str) = Some ''B''"
  "txString_of (example_vote state votes t str) = str"
  "first_transaction (example_vote state votes t str) = Inr (Some t)"
  "first_batch (example_vote state votes t str) = Inr (Some \<lparr>batch_hash = None, transactions = Some [t]\<rparr>)"
  by (simp_all add: example_vote_def executableIf_of_def txString_of_def safeSnap_of_def
      first_transaction_def first_batch_def)

lemma lowest_max_index_example: "lowest_max_index [5, 1, 5] 0"
  by (simp add: lowest_max_index_def nth_Cons' less_Suc_eq numeral_3_eq_3)

lemma winningChoice_example: "winningChoice (example_vote state [5, 1, 5] t str) = Some ''A''"
  by (simp add: winningChoice_def example_vote_simps indexOf_def element_def)

section \<open>Claims\<close>




text \<open>
  C2. For a proposal \<open>p\<close> that is not executed, an index that holds a commitment, and a
  transaction whose hash is not that commitment: \<^verbatim>\<open>executeProposalWithIndex\<close> reverts
  with \<^verbatim>\<open>Tx hash mismatch\<close>, no low-level call is made (there is no effect), and storage
  after the call is storage before it, so \<open>executed p\<close> is still false: the write of the
  flag is undone. At index 0 this is \<^verbatim>\<open>executeProposal\<close>.
\<close>

theorem executeProposal_hash_mismatch:
  assumes "\<not> executed s p" and "unat txIndex < length (proposals s p)"
    and "h to val dat operation \<noteq> proposals s p ! unat txIndex"
  shows "executeProposalWithIndex h ext s p to val dat operation txIndex = ([], Inl (Error ''Tx hash mismatch''))
         \<and> storage_after s (executeProposalWithIndex h ext s p to val dat operation txIndex) = s
         \<and> \<not> executed (storage_after s (executeProposalWithIndex h ext s p to val dat operation txIndex)) p
         \<and> (txIndex = 0 \<longrightarrow>
              executeProposal h ext s p to val dat operation = ([], Inl (Error ''Tx hash mismatch''))
              \<and> \<not> executed (storage_after s (executeProposal h ext s p to val dat operation)) p)"
  using assms by (auto simp add: executeProposalWithIndex_cases executeProposal_def storage_after_def)

text \<open>
  C2, an instance: the commitment of the simulation script is stored, and the
  transaction presented carries the value 0 in place of 10000000000000.
\<close>

theorem executeProposal_hash_mismatch_witness:
  "\<not> executed (example_storage [example_commitment]) example_proposalId
   \<and> unat (0 :: uint256) < length (proposals (example_storage [example_commitment]) example_proposalId)
   \<and> example_hash example_to 0 [] 0 \<noteq> proposals (example_storage [example_commitment]) example_proposalId ! unat (0 :: uint256)
   \<and> executeProposal example_hash succeeding_callee (example_storage [example_commitment]) example_proposalId
        example_to 0 [] 0 = ([], Inl (Error ''Tx hash mismatch''))
   \<and> \<not> executed (storage_after (example_storage [example_commitment])
         (executeProposal example_hash succeeding_callee (example_storage [example_commitment]) example_proposalId
        example_to 0 [] 0)) example_proposalId"
proof -
  have h1: "\<not> executed (example_storage [example_commitment]) example_proposalId"
    and h2: "unat (0 :: uint256) < length (proposals (example_storage [example_commitment]) example_proposalId)"
    by (simp_all add: example_storage_simps)
  have "example_hash example_to 0 [] 0 \<noteq> example_commitment"
    by (simp add: example_commitment_value) (simp add: example_hash_def example_to_def)
  then have h3: "example_hash example_to 0 [] 0 \<noteq>
      proposals (example_storage [example_commitment]) example_proposalId ! unat (0 :: uint256)"
    by (simp add: example_storage_simps)
  from h1 h2 h3 executeProposal_hash_mismatch [where h = example_hash and ext = succeeding_callee
      and s = "example_storage [example_commitment]" and p = example_proposalId and txIndex = 0
      and to = example_to and val = 0 and dat = "[]" and operation = 0]
  show ?thesis
    by blast
qed




text \<open>
  C4 fails on the code. The script reads the transaction at index 0 of batch 0 and
  does not use it: the buffer it returns is the hexadecimal decoding of
  \<^verbatim>\<open>plugins.safeSnap.txString\<close>. Two vote results that differ in the selected transaction
  and carry the same \<^verbatim>\<open>txString\<close> give the same payload, and a vote result with a
  transaction and no \<^verbatim>\<open>txString\<close> throws a \<^verbatim>\<open>TypeError\<close>.
\<close>

theorem snapshot_payload_ignores_transaction:
  "snapshot (vote_response (example_vote ''final'' [1, 5, 5] example_transaction (Some example_txString))) =
     ReturnsBuffer [0, 0, 0, 0, 0, 0, 0, 0, 0, 0, 0, 0, 144, 54, 70, 78, 78, 205, 45, 64, 210, 30,
       227, 138, 3, 152, 183, 245, 182, 120, 64, 155]
   \<and> snapshot (vote_response (example_vote ''final'' [1, 5, 5] other_transaction (Some example_txString))) =
     ReturnsBuffer [0, 0, 0, 0, 0, 0, 0, 0, 0, 0, 0, 0, 144, 54, 70, 78, 78, 205, 45, 64, 210, 30,
       227, 138, 3, 152, 183, 245, 182, 120, 64, 155]
   \<and> example_transaction \<noteq> other_transaction
   \<and> snapshot (vote_response (example_vote ''final'' [1, 5, 5] example_transaction None)) = Throws TypeError"
proof -
  have w: "\<And>t str. winningChoice (example_vote ''final'' [1, 5, 5] t str) = Some ''B''"
    by (simp add: winningChoice_def example_vote_simps indexOf_def element_def)
  have b: "Buffer_from_hex (drop 2 example_txString) =
      [0, 0, 0, 0, 0, 0, 0, 0, 0, 0, 0, 0, 144, 54, 70, 78, 78, 205, 45, 64, 210, 30,
       227, 138, 3, 152, 183, 245, 182, 120, 64, 155]"
    by (simp add: example_txString_def hex_digit_def)
  have ne: "example_transaction \<noteq> other_transaction"
    by (simp add: example_transaction_def other_transaction_def)
  show ?thesis
    using ne by (simp add: snapshot_def vote_response_def example_vote_simps w b)
qed

text \<open>
  C5, as the code has it. \<^verbatim>\<open>fulfillRequest\<close> does not look at \<^verbatim>\<open>err\<close>: a delivery
  that carries an error, and so an empty response, for a proposal that is not executed
  stores the empty commitment list for the proposal of the request id, in place of
  whatever was stored. A redelivery under a request id that is consumed is ignored: once
  a delivery under a request id has gone through, the id is consumed, and any further
  delivery under it, whatever it carries, emits nothing and leaves the correlation and
  the storage, the stored commitments with them, as they were.
\<close>

theorem fulfillRequest_error_delivery:
  assumes "\<not> executed s (functionRequestsForProposals s requestId)"
  shows "fulfillRequest s requestId [] err =
           ([OCRResponse requestId [] err],
            Inr (s\<lparr>proposals := (proposals s)(functionRequestsForProposals s requestId := [])\<rparr>))
         \<and> proposals (storage_after s (fulfillRequest s requestId [] err))
              (functionRequestsForProposals s requestId) = []
         \<and> (handleOracleFulfillment c requestId delivered deliveredErr = (effects, Inr c') \<longrightarrow>
              requestId \<in> consumed c'
              \<and> handleOracleFulfillment c' requestId response' err' = ([], Inr c'))"
proof -
  have "requestId \<in> consumed c'"
    if "handleOracleFulfillment c requestId delivered deliveredErr = (effects, Inr c')"
    using that by (auto simp add: handleOracleFulfillment_def split: if_splits prod.splits sum.splits)
  then show ?thesis
    using assms
    by (simp add: fulfillRequest_def bytesToBytes32Array_Nil storage_after_def handleOracleFulfillment_def)
qed

text \<open>
  C5, an instance: the request of the example run is answered by its commitment under
  request id 1; a second delivery under request id 1, which carries an error, is
  ignored and the commitment stays.
\<close>

theorem fulfillRequest_error_delivery_witness:
  "\<not> executed (consumer requested) (functionRequestsForProposals (consumer requested) 1)
   \<and> handleOracleFulfillment requested 1 example_payload [] =
        ([OCRResponse 1 example_payload []], Inr committed)
   \<and> proposals (storage_after (consumer requested) (fulfillRequest (consumer requested) 1 [] [69, 114, 114, 111, 114]))
        (functionRequestsForProposals (consumer requested) 1) = []
   \<and> 1 \<in> consumed committed
   \<and> handleOracleFulfillment committed 1 [] [69, 114, 114, 111, 114] = ([], Inr committed)
   \<and> proposals (consumer committed) example_proposalId = [example_commitment]"
proof -
  have h1: "\<not> executed (consumer requested) (functionRequestsForProposals (consumer requested) 1)"
    by (simp only: requested_def example_run_requested) (simp add: constructor_def)
  have h2: "handleOracleFulfillment requested 1 example_payload [] =
      ([OCRResponse 1 example_payload []], Inr committed)"
    by (simp only: requested_def committed_def example_run_requested example_run_committed)
      (simp add: handleOracleFulfillment_def fulfillRequest_def example_payload_decodes constructor_def)
  have h3: "proposals (consumer committed) example_proposalId = [example_commitment]"
    by (simp only: committed_def example_run_committed) simp
  from h1 h2 h3 fulfillRequest_error_delivery [where s = "consumer requested" and requestId = 1
      and err = "[69, 114, 114, 111, 114]" and c = requested and delivered = example_payload
      and deliveredErr = "[]" and effects = "[OCRResponse 1 example_payload []]" and c' = committed
      and response' = "[]" and err' = "[69, 114, 114, 111, 114]"]
  show ?thesis
    by blast
qed

text \<open>
  C5 as stated fails: the owner requests a resolution of one proposal twice, the
  first request is answered by a commitment and the second by an error. The error
  delivery changes the commitment list of the proposal from one commitment to none.
\<close>

theorem fulfillRequest_error_delivery_counterexample:
  "functionRequestsForProposals (fst (run example_hash (take 3 clobbering_run))) 2 = example_proposalId
   \<and> proposals (fst (run example_hash (take 3 clobbering_run))) example_proposalId = [example_commitment]
   \<and> proposals (fst (run example_hash clobbering_run)) example_proposalId = []"
  by (simp add: clobbering_run_def run_def step_def executeRequest_def fulfillRequest_def
      example_payload_decodes constructor_def bytesToBytes32Array_Nil)

text \<open>
  C6 fails on the code. Both branches of \<^verbatim>\<open>exec\<close> return \<^verbatim>\<open>success\<close> right after
  the low-level call, so the lines that revert with \<^verbatim>\<open>Transaction reverted silently\<close> or
  with the bytes returned are never reached: on a failed call, with or without return
  bytes, \<^verbatim>\<open>exec\<close> returns false and \<^verbatim>\<open>executeProposal\<close> reverts with
  \<^verbatim>\<open>Module transaction failed\<close>.
\<close>

theorem exec_failure_not_bubbled:
  "exec (failing_callee [8, 195, 121, 160]) (example_storage [example_commitment])
      example_to example_value [] CALL =
     ([External (Call example_to example_value []) (example_storage [example_commitment]) False [8, 195, 121, 160]],
      Inr (False, example_storage [example_commitment]))
   \<and> exec (failing_callee []) (example_storage [example_commitment]) example_to example_value [] CALL =
     ([External (Call example_to example_value []) (example_storage [example_commitment]) False []],
      Inr (False, example_storage [example_commitment]))
   \<and> snd (executeProposal example_hash (failing_callee [8, 195, 121, 160])
        (example_storage [example_commitment]) example_proposalId example_to example_value [] 0) =
       Inl (Error ''Module transaction failed'')
   \<and> snd (executeProposal example_hash (failing_callee [])
        (example_storage [example_commitment]) example_proposalId example_to example_value [] 0) =
       Inl (Error ''Module transaction failed'')"
  by (simp add: exec_def example_storage_simps executeProposal_def executeProposalWithIndex_cases
      failing_callee_def flip: example_commitment_def)

text \<open>
  C7. For every vote result the service answers with: when \<^verbatim>\<open>scores_state\<close> is not
  \<^verbatim>\<open>final\<close> the script throws \<^verbatim>\<open>Snapshot vote is not final\<close>, whatever the scores and
  the quorum; when it is final and \<^verbatim>\<open>scores_total\<close> is below \<^verbatim>\<open>quorum\<close> the script throws
  \<^verbatim>\<open>Snapshot vote quorum not reached\<close>. In both cases the script returns no payload.
  The delivery that follows a failed script carries an empty response (the simulation
  script passes \<^verbatim>\<open>success ? result : "0x"\<close>), and such a delivery adds no commitment to
  any proposal.
\<close>

theorem snapshot_validation_order:
  "(scores_state v \<noteq> ''final'' \<longrightarrow>
      snapshot (vote_response v) = Throws (JsError ''Snapshot vote is not final''))
   \<and> (scores_state v = ''final'' \<and> scores_total v < quorum v \<longrightarrow>
      snapshot (vote_response v) = Throws (JsError ''Snapshot vote quorum not reached''))
   \<and> (scores_state v \<noteq> ''final'' \<or> scores_total v < quorum v \<longrightarrow>
      payload_of (snapshot (vote_response v)) = None)
   \<and> (\<forall>q. set (proposals (storage_after s (fulfillRequest s requestId [] err)) q) \<subseteq> set (proposals s q))"
  by (simp add: snapshot_def vote_response_def payload_of_def fulfillRequest_def storage_after_def
      bytesToBytes32Array_Nil)

text \<open>
  C7, two instances: a pending vote above the quorum, and a final vote whose total 5 is
  below the quorum 10.
\<close>

theorem snapshot_validation_order_witness:
  "scores_state (example_vote ''pending'' [1, 5, 5] example_transaction (Some example_txString)) \<noteq> ''final''
   \<and> snapshot (vote_response (example_vote ''pending'' [1, 5, 5] example_transaction (Some example_txString))) =
        Throws (JsError ''Snapshot vote is not final'')
   \<and> scores_state (example_vote ''final'' [1, 2, 2] example_transaction (Some example_txString)) = ''final''
   \<and> scores_total (example_vote ''final'' [1, 2, 2] example_transaction (Some example_txString)) <
        quorum (example_vote ''final'' [1, 2, 2] example_transaction (Some example_txString))
   \<and> snapshot (vote_response (example_vote ''final'' [1, 2, 2] example_transaction (Some example_txString))) =
        Throws (JsError ''Snapshot vote quorum not reached'')
   \<and> payload_of (snapshot (vote_response (example_vote ''pending'' [1, 5, 5] example_transaction (Some example_txString)))) = None
   \<and> payload_of (snapshot (vote_response (example_vote ''final'' [1, 2, 2] example_transaction (Some example_txString)))) = None"
proof -
  let ?a = "example_vote ''pending'' [1, 5, 5] example_transaction (Some example_txString)"
  let ?b = "example_vote ''final'' [1, 2, 2] example_transaction (Some example_txString)"
  have h1: "scores_state ?a \<noteq> ''final''"
    and h2: "scores_state ?b = ''final''"
    and h3: "scores_total ?b < quorum ?b"
    by (simp_all add: example_vote_simps)
  from h1 h2 h3 snapshot_validation_order [where v = ?a] snapshot_validation_order [where v = ?b]
  show ?thesis
    by blast
qed

text \<open>
  C8. \<^verbatim>\<open>bytesToBytes32Array\<close> never fails. It returns the consecutive 32-byte chunks
  of its input in order, chunk \<open>k\<close> being the bytes \<open>32 * k\<close> to \<open>32 * k + 31\<close>, and
  drops a trailing partial chunk: the number of commitments is the length divided by 32,
  rounded down. So 64 bytes give 2 commitments, 50 bytes give 1 (the last 18 bytes are
  dropped: the only chunk is made of the first 32 bytes), and the empty input gives the
  empty sequence.
\<close>

theorem bytesToBytes32Array_chunks:
  "bytesToBytes32Array data =
      Inr (map (\<lambda>k. word_rcat (take 32 (drop (32 * k) data))) [0..<length data div 32])
   \<and> (length data = 64 \<longrightarrow>
        bytesToBytes32Array data =
          Inr [word_rcat (take 32 data), word_rcat (take 32 (drop 32 data))])
   \<and> (length data = 50 \<longrightarrow> bytesToBytes32Array data = Inr [word_rcat (take 32 data)])
   \<and> bytesToBytes32Array [] = Inr []"
proof -
  have two: "[0..<2] = [0, Suc 0]"
    by (simp add: upt_conv_Cons)
  show ?thesis
    by (simp add: bytesToBytes32Array_eq chunks32_def two)
qed

text \<open>C8, two instances: 64 bytes and 50 bytes.\<close>

theorem bytesToBytes32Array_chunks_witness:
  "length (replicate 64 (1 :: 8 word)) = 64
   \<and> length (replicate 50 (1 :: 8 word)) = 50
   \<and> (\<exists>a b. bytesToBytes32Array (replicate 64 1) = Inr [a, b])
   \<and> (\<exists>a. bytesToBytes32Array (replicate 50 1) = Inr [a])"
proof -
  have l64: "length (replicate 64 (1 :: 8 word)) = 64" and l50: "length (replicate 50 (1 :: 8 word)) = 50"
    by simp_all
  from bytesToBytes32Array_chunks [of "replicate 64 1"] l64
  have "\<exists>a b. bytesToBytes32Array (replicate 64 1) = Inr [a, b]"
    by blast
  moreover from bytesToBytes32Array_chunks [of "replicate 50 1"] l50
  have "\<exists>a. bytesToBytes32Array (replicate 50 1) = Inr [a]"
    by blast
  ultimately show ?thesis
    using l64 l50 by blast
qed

text \<open>
  C9. For a vote result that is final and reaches the quorum, where \<^verbatim>\<open>executableIf\<close> is
  not the winning choice, the script does not throw: it returns the \<^verbatim>\<open>Error\<close> object
  that stands for no execution. The winning choice is the choice at the lowest index
  that achieves the maximum score, wherever there is such a choice.
\<close>

theorem snapshot_no_execution:
  assumes "scores_state v = ''final''" and "\<not> scores_total v < quorum v"
    and "executableIf_of v \<noteq> winningChoice v"
  shows "snapshot (vote_response v) = ReturnsError ''Snpashot vote outcome should not execute''
         \<and> (\<forall>i. lowest_max_index (scores v) i \<and> i < length (choices v) \<longrightarrow>
               winningChoice v = Some (choices v ! i))"
  using assms by (simp add: snapshot_def vote_response_def winningChoice_lowest_max_index)

text \<open>
  C9, an instance: the scores 5, 1, 5 make the first choice win, at index 0 and not at
  index 2, and \<^verbatim>\<open>executableIf\<close> names the second.
\<close>

theorem snapshot_no_execution_witness:
  "scores_state (example_vote ''final'' [5, 1, 5] example_transaction (Some example_txString)) = ''final''
   \<and> \<not> scores_total (example_vote ''final'' [5, 1, 5] example_transaction (Some example_txString)) <
        quorum (example_vote ''final'' [5, 1, 5] example_transaction (Some example_txString))
   \<and> executableIf_of (example_vote ''final'' [5, 1, 5] example_transaction (Some example_txString)) \<noteq>
        winningChoice (example_vote ''final'' [5, 1, 5] example_transaction (Some example_txString))
   \<and> lowest_max_index (scores (example_vote ''final'' [5, 1, 5] example_transaction (Some example_txString))) 0
   \<and> 0 < length (choices (example_vote ''final'' [5, 1, 5] example_transaction (Some example_txString)))
   \<and> winningChoice (example_vote ''final'' [5, 1, 5] example_transaction (Some example_txString)) =
        Some (choices (example_vote ''final'' [5, 1, 5] example_transaction (Some example_txString)) ! 0)
   \<and> snapshot (vote_response (example_vote ''final'' [5, 1, 5] example_transaction (Some example_txString))) =
        ReturnsError ''Snpashot vote outcome should not execute''"
proof -
  let ?v = "example_vote ''final'' [5, 1, 5] example_transaction (Some example_txString)"
  have h1: "scores_state ?v = ''final''"
    and h2: "\<not> scores_total ?v < quorum ?v"
    and h3: "executableIf_of ?v \<noteq> winningChoice ?v"
    and h4: "lowest_max_index (scores ?v) 0"
    and h5: "0 < length (choices ?v)"
    by (simp_all add: example_vote_simps winningChoice_example lowest_max_index_example)
  from h1 h2 h3 h4 h5 snapshot_no_execution [of ?v]
  show ?thesis
    by blast
qed

text \<open>
  C10. For a proposal \<open>p\<close> that is not executed and an index at or beyond the length of
  its commitment list (the empty list of a proposal that awaits its resolution
  included), \<^verbatim>\<open>executeProposalWithIndex\<close> fails the bounds check of the array read: it
  reverts with \<open>Panic 0x32\<close>, which is not the hash mismatch error, no low-level call is
  made, and storage is unchanged, so \<open>executed p\<close> is still false.
\<close>

theorem executeProposalWithIndex_out_of_bounds:
  assumes "\<not> executed s p" and "length (proposals s p) \<le> unat txIndex"
  shows "executeProposalWithIndex h ext s p to val dat operation txIndex = ([], Inl (Panic 0x32))
         \<and> Panic 0x32 \<noteq> Error ''Tx hash mismatch''
         \<and> storage_after s (executeProposalWithIndex h ext s p to val dat operation txIndex) = s
         \<and> \<not> executed (storage_after s (executeProposalWithIndex h ext s p to val dat operation txIndex)) p"
  using assms by (simp add: executeProposalWithIndex_cases storage_after_def)

text \<open>C10, an instance: a proposal without commitments, index 0.\<close>

theorem executeProposalWithIndex_out_of_bounds_witness:
  "\<not> executed constructor example_proposalId
   \<and> length (proposals constructor example_proposalId) \<le> unat (0 :: uint256)
   \<and> executeProposalWithIndex example_hash succeeding_callee constructor example_proposalId
        example_to example_value [] 0 0 = ([], Inl (Panic 0x32))
   \<and> \<not> executed (storage_after constructor
        (executeProposalWithIndex example_hash succeeding_callee constructor example_proposalId
           example_to example_value [] 0 0)) example_proposalId"
proof -
  have h1: "\<not> executed constructor example_proposalId"
    and h2: "length (proposals constructor example_proposalId) \<le> unat (0 :: uint256)"
    by (simp_all add: constructor_def)
  from h1 h2 executeProposalWithIndex_out_of_bounds [where h = example_hash and ext = succeeding_callee
      and s = constructor and p = example_proposalId and txIndex = 0
      and to = example_to and val = example_value and dat = "[]" and operation = 0]
  show ?thesis
    by blast
qed

end
